theory Spec2Isabelle
  imports Main
begin

section \<open>JSON-RPC envelopes\<close>

text \<open>
  The proxy relays values of the SDK type \<open>JSONRPCMessage\<close>. An envelope has the
  protocol version tag, an optional correlation id, and one of three members: a method
  (with optional params), a result, or an error. Payloads are plain JSON values.
\<close>

datatype json =
    JNull
  | JBool bool
  | JNum int
  | JStr string
  | JArr "json list"
  | JObj "(string \<times> json) list"

datatype RequestId = IdNum int | IdStr string

text \<open>
  A JavaScript \<open>Error\<close> object, as far as the proxy reads it: its \<open>message\<close> and its
  \<open>cause\<close>. The cause is kept as the text \<open>JSON.stringify(error.cause)\<close> produces,
  the only way the proxy looks at it; \<open>None\<close> is an absent cause.
\<close>

datatype js_error = JsError (err_message: string) (err_cause: "string option")

datatype error_data = DataJson json | DataError js_error

datatype body =
    Call string "json option"
  | Result json
  | Failure int string "error_data option"

record JSONRPCMessage =
  jsonrpc :: string
  msg_id :: "RequestId option"
  body :: body

text \<open>
  \<open>isJSONRPCRequest\<close> of the SDK: the value parses as a JSON-RPC request, that is, it has
  the version tag \<open>"2.0"\<close>, an \<open>id\<close> and a \<open>method\<close> (and no result or error member).
\<close>

definition isJSONRPCRequest :: "JSONRPCMessage \<Rightarrow> bool" where
  "isJSONRPCRequest m =
     (jsonrpc m = ''2.0'' \<and> msg_id m \<noteq> None \<and>
      (case body m of Call _ _ \<Rightarrow> True | _ \<Rightarrow> False))"

text \<open>
  JavaScript truthiness of a value of type \<open>string | undefined\<close>: defined and not the
  empty string.
\<close>

fun truthy :: "string option \<Rightarrow> bool" where
  "truthy None = False"
| "truthy (Some t) = (t \<noteq> [])"

text \<open>\<open>String.prototype.includes\<close>: the needle occurs as a contiguous substring.\<close>

fun str_includes :: "string \<Rightarrow> string \<Rightarrow> bool" where
  "str_includes [] sub = (sub = [])"
| "str_includes (c # cs) sub = (take (length sub) (c # cs) = sub \<or> str_includes cs sub)"

section \<open>The forwarding engine (server/src/mcpProxy.ts)\<close>

text \<open>
  \<open>mcpProxy\<close> installs six callbacks on the two transports and keeps three flags in its
  closure. The transports and the console are outside the engine, so each callback is a
  function from the closure's state to the new state and the list of calls it makes, in
  order. A \<open>.catch\<close> callback attached to a promise is a callback of its own: it runs
  later, in the state of that moment, when the promise is rejected.
\<close>

datatype diag =
    FromClient js_error
  | ConnectionRefused
  | FromServer js_error
  | ServerSession string

datatype effect =
    SendToServer JSONRPCMessage
  | SendToClient JSONRPCMessage
  | CloseServer
  | CloseClient
  | ConsoleError diag
  | LoggerInitialize
  | LoggerMessage string JSONRPCMessage
  | LoggerError js_error
  | LoggerClose

record proxy =
  transportToClientClosed :: bool
  transportToServerClosed :: bool
  reportedServerSession :: bool
  hasDebugLogger :: bool

definition onClientError :: "js_error \<Rightarrow> effect list" where
  "onClientError e = [ConsoleError (FromClient e)]"

text \<open>
  \<open>error?.message && error.message.includes(...)\<close>: an empty message is falsy and
  includes nothing. \<open>error?.cause && JSON.stringify(error.cause).includes(...)\<close>: the
  falsy causes serialise to \<open>0\<close>, \<open>""\<close>, \<open>null\<close> or \<open>false\<close>, none of which
  contains the pattern.
\<close>

definition onServerError :: "js_error \<Rightarrow> effect list" where
  "onServerError e =
     (if (err_message e \<noteq> [] \<and>
          str_includes (err_message e) ''Error POSTing to endpoint (HTTP 404)'') \<or>
         (case err_cause e of None \<Rightarrow> False | Some c \<Rightarrow> str_includes c ''ECONNREFUSED'')
      then [ConsoleError ConnectionRefused]
      else [ConsoleError (FromServer e)])"

text \<open>\<open>debugLogger?.f(...)\<close>: the call is made only when a logger was created.\<close>

definition debugLogger :: "proxy \<Rightarrow> effect \<Rightarrow> effect list" where
  "debugLogger s call = (if hasDebugLogger s then [call] else [])"

text \<open>
  The start of \<open>mcpProxy\<close>: all flags false; a logger is created, and its initialisation
  started, when \<open>MCP_TRANSPORT_DEBUG_FILE\<close> is set to a non-empty string.
\<close>

definition mcpProxy :: "string option \<Rightarrow> proxy \<times> effect list" where
  "mcpProxy debugBasePath =
     (let enabled = truthy debugBasePath
      in (\<lparr>transportToClientClosed = False, transportToServerClosed = False,
           reportedServerSession = False, hasDebugLogger = enabled\<rparr>,
          if enabled then [LoggerInitialize] else []))"

text \<open>The synthesized reply of the \<open>.catch\<close> callback on \<open>transportToServer.send\<close>.\<close>

definition errorResponse :: "JSONRPCMessage \<Rightarrow> js_error \<Rightarrow> JSONRPCMessage" where
  "errorResponse message error =
     \<lparr>jsonrpc = ''2.0'', msg_id = msg_id message,
      body = Failure (- 32001) (err_message error) (Some (DataError error))\<rparr>"

text \<open>
  The report of the server's session id, made when \<open>transportToServer.sessionId\<close> is
  truthy.
\<close>

fun reportServerSession :: "string option \<Rightarrow> effect list" where
  "reportServerSession None = []"
| "reportServerSession (Some i) = (if i = [] then [] else [ConsoleError (ServerSession i)])"

datatype event =
    ClientOnMessage JSONRPCMessage
  | ServerSendRejected JSONRPCMessage js_error
  | ServerOnMessage JSONRPCMessage "string option"
  | ClientSendRejected js_error
  | ClientOnClose
  | ServerOnClose
  | ServerCloseRejected js_error
  | ClientCloseRejected js_error
  | ClientOnError js_error
  | ServerOnError js_error

text \<open>
  One clause per callback of the source. \<open>ServerSendRejected message error\<close> is the
  \<open>.catch\<close> callback of the \<open>transportToServer.send(message)\<close> made for \<open>message\<close>;
  \<open>ClientSendRejected\<close>, \<open>ServerCloseRejected\<close> and \<open>ClientCloseRejected\<close> are the
  \<open>.catch(onClientError)\<close> and \<open>.catch(onServerError)\<close> callbacks.
  \<open>ServerOnMessage message sid\<close> carries what \<open>transportToServer.sessionId\<close> reads at
  that moment; an empty string is falsy.
\<close>

fun step :: "proxy \<Rightarrow> event \<Rightarrow> proxy \<times> effect list" where
  "step s (ClientOnMessage message) =
     (s, debugLogger s (LoggerMessage ''client->server'' message) @ [SendToServer message])"
| "step s (ServerSendRejected message error) =
     (s, debugLogger s (LoggerError error) @
         (if isJSONRPCRequest message \<and> \<not> transportToClientClosed s
          then [SendToClient (errorResponse message error)] else []))"
| "step s (ServerOnMessage message sid) =
     (s\<lparr>reportedServerSession := True\<rparr>,
      (if \<not> reportedServerSession s then reportServerSession sid else []) @
      debugLogger s (LoggerMessage ''server->client'' message) @ [SendToClient message])"
| "step s (ClientSendRejected error) = (s, onClientError error)"
| "step s ClientOnClose =
     (if transportToServerClosed s then (s, [])
      else (s\<lparr>transportToClientClosed := True\<rparr>, debugLogger s LoggerClose @ [CloseServer]))"
| "step s ServerOnClose =
     (if transportToClientClosed s then (s, [])
      else (s\<lparr>transportToServerClosed := True\<rparr>, debugLogger s LoggerClose @ [CloseClient]))"
| "step s (ServerCloseRejected error) = (s, onServerError error)"
| "step s (ClientCloseRejected error) = (s, onClientError error)"
| "step s (ClientOnError error) = (s, debugLogger s (LoggerError error) @ onClientError error)"
| "step s (ServerOnError error) = (s, debugLogger s (LoggerError error) @ onServerError error)"

text \<open>A run of callbacks, in the order the events arrive, with all calls made.\<close>

fun run :: "proxy \<Rightarrow> event list \<Rightarrow> proxy \<times> effect list" where
  "run s [] = (s, [])"
| "run s (e # es) =
     (case step s e of (s1, out1) \<Rightarrow>
        (case run s1 es of (s2, out2) \<Rightarrow> (s2, out1 @ out2)))"

text \<open>Projections of a list of calls: those made on a transport, and the closes.\<close>

fun is_transport_call :: "effect \<Rightarrow> bool" where
  "is_transport_call (SendToServer _) = True"
| "is_transport_call (SendToClient _) = True"
| "is_transport_call CloseServer = True"
| "is_transport_call CloseClient = True"
| "is_transport_call _ = False"

fun is_close :: "effect \<Rightarrow> bool" where
  "is_close CloseServer = True"
| "is_close CloseClient = True"
| "is_close _ = False"

definition transport_calls :: "effect list \<Rightarrow> effect list" where
  "transport_calls out = filter is_transport_call out"

definition closes :: "effect list \<Rightarrow> effect list" where
  "closes out = filter is_close out"

section \<open>The debug logger (debug-logger.ts)\<close>

text \<open>
  One record of the log file; the file is kept as the list of its records, one per line
  (\<open>JSON.stringify(entry) + "\n"\<close>).
\<close>

record DebugLogEntry =
  hrtime :: string
  time :: string
  pid :: nat
  entry_role :: string
  direction :: string
  message :: "JSONRPCMessage option"
  error :: "string option"

record DebugLogger =
  logFileHandle :: "nat option"
  logFilePath :: string
  role :: string

text \<open>
  What the logger's methods can touch: the instance itself (\<open>this\<close>), the process id, the
  log file behind the handle, the handles on which \<open>close()\<close> has succeeded, and the
  diagnostic stream.
\<close>

record world =
  this :: DebugLogger
  process_pid :: nat
  log_file :: "DebugLogEntry list"
  closed_handles :: "nat list"
  console :: "string list"

text \<open>The two clock readings an entry takes when it is built.\<close>

record clock =
  hrtime_bigint :: string
  date_iso :: string

text \<open>Decimal digits of a number, for \<open>${process.pid}\<close> in the file name.\<close>

fun decimal :: "nat \<Rightarrow> string" where
  "decimal n =
     (if n < 10 then [char_of (48 + n)]
      else decimal (n div 10) @ [char_of (48 + n mod 10)])"

text \<open>The constructor; \<open>role\<close> defaults to \<open>"proxy"\<close>.\<close>

definition DebugLogger_new :: "string \<Rightarrow> string option \<Rightarrow> nat \<Rightarrow> DebugLogger" where
  "DebugLogger_new debugBasePath role_arg p =
     (let r = (case role_arg of None \<Rightarrow> ''proxy'' | Some x \<Rightarrow> x)
      in \<lparr>logFileHandle = None,
          logFilePath = debugBasePath @ ''.'' @ r @ ''.'' @ decimal p,
          role = r\<rparr>)"

text \<open>
  An asynchronous method is a function of the world that returns normally (\<open>Inr\<close>) or
  throws (\<open>Inl\<close>, with the error's message), and the world it leaves either way. In this
  form a call is taken to completion before the next one starts; the calls that overlap
  are modelled further down, by the steps between the awaits.
\<close>

type_synonym 'a io = "world \<Rightarrow> (string + 'a) \<times> world"

definition io_return :: "'a \<Rightarrow> 'a io" where
  "io_return a = (\<lambda>w. (Inr a, w))"

definition io_throw :: "string \<Rightarrow> 'a io" where
  "io_throw e = (\<lambda>w. (Inl e, w))"

definition io_get :: "world io" where
  "io_get = (\<lambda>w. (Inr w, w))"

definition io_bind :: "'a io \<Rightarrow> ('a \<Rightarrow> 'b io) \<Rightarrow> 'b io" where
  "io_bind m f = (\<lambda>w. case m w of (Inl e, w1) \<Rightarrow> (Inl e, w1) | (Inr a, w1) \<Rightarrow> f a w1)"

definition try_catch :: "'a io \<Rightarrow> (string \<Rightarrow> 'a io) \<Rightarrow> 'a io" where
  "try_catch m handler =
     (\<lambda>w. case m w of (Inl e, w1) \<Rightarrow> handler e w1 | (Inr a, w1) \<Rightarrow> (Inr a, w1))"

text \<open>
  The file system calls. Whether a call fails is decided outside the program, so each
  takes its outcome as an argument: \<open>None\<close> for success, \<open>Some e\<close> for a failure with
  message \<open>e\<close> (\<open>fs.open\<close>: the new handle, or the failure).
\<close>

definition fs_mkdir :: "string option \<Rightarrow> unit io" where
  "fs_mkdir outcome = (\<lambda>w. (case outcome of None \<Rightarrow> Inr () | Some e \<Rightarrow> Inl e, w))"

definition fs_open :: "string + nat \<Rightarrow> nat io" where
  "fs_open outcome = (\<lambda>w. (outcome, w))"

definition handle_write :: "string option \<Rightarrow> DebugLogEntry \<Rightarrow> unit io" where
  "handle_write outcome line =
     (\<lambda>w. case outcome of
            None \<Rightarrow> (Inr (), w\<lparr>log_file := log_file w @ [line]\<rparr>)
          | Some e \<Rightarrow> (Inl e, w))"

definition handle_sync :: "string option \<Rightarrow> unit io" where
  "handle_sync outcome = (\<lambda>w. (case outcome of None \<Rightarrow> Inr () | Some e \<Rightarrow> Inl e, w))"

definition handle_close :: "string option \<Rightarrow> nat \<Rightarrow> unit io" where
  "handle_close outcome h =
     (\<lambda>w. case outcome of
            None \<Rightarrow> (Inr (), w\<lparr>closed_handles := closed_handles w @ [h]\<rparr>)
          | Some e \<Rightarrow> (Inl e, w))"

definition console_error :: "string \<Rightarrow> unit io" where
  "console_error line = (\<lambda>w. (Inr (), w\<lparr>console := console w @ [line]\<rparr>))"

definition set_logFileHandle :: "nat option \<Rightarrow> unit io" where
  "set_logFileHandle h = (\<lambda>w. (Inr (), w\<lparr>this := (this w)\<lparr>logFileHandle := h\<rparr>\<rparr>))"

text \<open>
  \<open>path.dirname\<close>, as far as \<open>initialize\<close> needs it: trailing slashes and the last
  component are dropped; a path with no directory part gives \<open>"."\<close>.
\<close>

definition dirname :: "string \<Rightarrow> string" where
  "dirname p =
     (let r = dropWhile (\<lambda>c. c \<noteq> CHR ''/'') (dropWhile (\<lambda>c. c = CHR ''/'') (rev p));
          d = dropWhile (\<lambda>c. c = CHR ''/'') r
      in if r = [] then ''.'' else if d = [] then ''/'' else rev d)"

definition initialize :: "string option \<Rightarrow> string + nat \<Rightarrow> unit io" where
  "initialize mkdir_outcome open_outcome =
     io_bind io_get (\<lambda>w0.
       try_catch
         (io_bind
            (if dirname (logFilePath (this w0)) \<noteq> ''.'' then fs_mkdir mkdir_outcome
             else io_return ())
            (\<lambda>_. io_bind (fs_open open_outcome) (\<lambda>h. set_logFileHandle (Some h))))
         (\<lambda>e. console_error
            (''[DebugLogger] Failed to open log file '' @ logFilePath (this w0) @ '': '' @ e)))"

definition logMessage ::
  "string \<Rightarrow> JSONRPCMessage \<Rightarrow> clock \<Rightarrow> string option \<Rightarrow> string option \<Rightarrow> unit io" where
  "logMessage dir msg clk write_outcome sync_outcome =
     io_bind io_get (\<lambda>w0.
       if logFileHandle (this w0) = None then io_return ()
       else
         let entry = \<lparr>hrtime = hrtime_bigint clk, time = date_iso clk, pid = process_pid w0,
                       entry_role = role (this w0), direction = dir,
                       message = Some msg, error = None\<rparr>
         in try_catch
              (io_bind (handle_write write_outcome entry) (\<lambda>_.
                 io_bind io_get (\<lambda>w1.
                   if logFileHandle (this w1) \<noteq> None then handle_sync sync_outcome
                   else io_return ())))
              (\<lambda>e. console_error (''[DebugLogger] Failed to write log entry: '' @ e)))"

definition logError :: "js_error \<Rightarrow> clock \<Rightarrow> string option \<Rightarrow> unit io" where
  "logError err clk write_outcome =
     io_bind io_get (\<lambda>w0.
       if logFileHandle (this w0) = None then io_return ()
       else
         let entry = \<lparr>hrtime = hrtime_bigint clk, time = date_iso clk, pid = process_pid w0,
                       entry_role = role (this w0), direction = ''error'',
                       message = None, error = Some (err_message err)\<rparr>
         in try_catch (handle_write write_outcome entry) (\<lambda>e. io_return ()))"

definition close_entry :: "clock \<Rightarrow> world \<Rightarrow> DebugLogEntry" where
  "close_entry clk w0 =
     \<lparr>hrtime = hrtime_bigint clk, time = date_iso clk, pid = process_pid w0,
      entry_role = role (this w0), direction = ''close'', message = None, error = None\<rparr>"

text \<open>
  \<open>this.logFileHandle.close()\<close> reads the field again after the write: on \<open>null\<close> the
  call throws a \<open>TypeError\<close>, inside the \<open>try\<close>.
\<close>

definition close_logFileHandle :: "string option \<Rightarrow> unit io" where
  "close_logFileHandle close_outcome =
     io_bind io_get (\<lambda>w1.
       case logFileHandle (this w1) of
         None \<Rightarrow> io_throw ''TypeError: Cannot read properties of null''
       | Some h \<Rightarrow> handle_close close_outcome h)"

definition logClose :: "clock \<Rightarrow> string option \<Rightarrow> string option \<Rightarrow> unit io" where
  "logClose clk write_outcome close_outcome =
     io_bind io_get (\<lambda>w0.
       if logFileHandle (this w0) = None then io_return ()
       else
         try_catch
           (io_bind (handle_write write_outcome (close_entry clk w0)) (\<lambda>_.
              io_bind (close_logFileHandle close_outcome) (\<lambda>_. set_logFileHandle None)))
           (\<lambda>e. io_return ()))"

text \<open>The three logging calls with their outcomes, and a sequence of them on one instance.\<close>

datatype log_call =
    CallLogMessage string JSONRPCMessage clock "string option" "string option"
  | CallLogError js_error clock "string option"
  | CallLogClose clock "string option" "string option"

fun exec_call :: "log_call \<Rightarrow> unit io" where
  "exec_call (CallLogMessage dir msg clk wo so) = logMessage dir msg clk wo so"
| "exec_call (CallLogError err clk wo) = logError err clk wo"
| "exec_call (CallLogClose clk wo co) = logClose clk wo co"

fun run_calls :: "log_call list \<Rightarrow> unit io" where
  "run_calls [] = io_return ()"
| "run_calls (c # cs) = io_bind (exec_call c) (\<lambda>_. run_calls cs)"

subsection \<open>Calls that overlap\<close>

text \<open>
  The proxy does not await the logger (\<open>debugLogger?.logMessage(...)\<close>), so a call can
  start while another is suspended at an \<open>await\<close>. A call runs up to its first \<open>await\<close>
  when it starts; what is left of it is a task, which continues when the awaited file
  operation settles. A task records where its call is suspended: at the write of its
  line, at the \<open>sync()\<close>, or at the \<open>close()\<close> of a handle.
\<close>

datatype task =
    AwaitMessageWrite DebugLogEntry
  | AwaitMessageSync
  | AwaitErrorWrite DebugLogEntry
  | AwaitCloseWrite DebugLogEntry
  | AwaitCloseClose nat

datatype request =
    StartLogMessage string JSONRPCMessage clock
  | StartLogError js_error clock
  | StartLogClose clock

text \<open>
  The part of a call before its first \<open>await\<close>: the guard on \<open>logFileHandle\<close>, the entry,
  and the write that is issued. \<open>None\<close>: the call returned at the guard.
\<close>

fun start_call :: "request \<Rightarrow> world \<Rightarrow> task option" where
  "start_call (StartLogMessage dir msg clk) w0 =
     (if logFileHandle (this w0) = None then None
      else Some (AwaitMessageWrite
             \<lparr>hrtime = hrtime_bigint clk, time = date_iso clk, pid = process_pid w0,
              entry_role = role (this w0), direction = dir,
              message = Some msg, error = None\<rparr>))"
| "start_call (StartLogError err clk) w0 =
     (if logFileHandle (this w0) = None then None
      else Some (AwaitErrorWrite
             \<lparr>hrtime = hrtime_bigint clk, time = date_iso clk, pid = process_pid w0,
              entry_role = role (this w0), direction = ''error'',
              message = None, error = Some (err_message err)\<rparr>))"
| "start_call (StartLogClose clk) w0 =
     (if logFileHandle (this w0) = None then None
      else Some (AwaitCloseWrite (close_entry clk w0)))"

text \<open>
  The awaited operation settles with the given outcome and the call continues to its next
  \<open>await\<close> (the task that is left) or to its end (\<open>None\<close>). A rejection goes to the
  call's \<open>catch\<close>. The fields of \<open>this\<close> are read as they are at that moment.
\<close>

fun resume :: "task \<Rightarrow> string option \<Rightarrow> world \<Rightarrow> world \<times> task option" where
  "resume (AwaitMessageWrite line) outcome w =
     (case handle_write outcome line w of
        (Inl e, w1) \<Rightarrow>
          (snd (console_error (''[DebugLogger] Failed to write log entry: '' @ e) w1), None)
      | (Inr _, w1) \<Rightarrow>
          (w1, if logFileHandle (this w1) \<noteq> None then Some AwaitMessageSync else None))"
| "resume AwaitMessageSync outcome w =
     (case handle_sync outcome w of
        (Inl e, w1) \<Rightarrow>
          (snd (console_error (''[DebugLogger] Failed to write log entry: '' @ e) w1), None)
      | (Inr _, w1) \<Rightarrow> (w1, None))"
| "resume (AwaitErrorWrite line) outcome w =
     (case handle_write outcome line w of (_, w1) \<Rightarrow> (w1, None))"
| "resume (AwaitCloseWrite line) outcome w =
     (case handle_write outcome line w of
        (Inl e, w1) \<Rightarrow> (w1, None)
      | (Inr _, w1) \<Rightarrow>
          (w1, case logFileHandle (this w1) of None \<Rightarrow> None | Some h \<Rightarrow> Some (AwaitCloseClose h)))"
| "resume (AwaitCloseClose h) outcome w =
     (case handle_close outcome h w of
        (Inl e, w1) \<Rightarrow> (w1, None)
      | (Inr _, w1) \<Rightarrow> (snd (set_logFileHandle None w1), None))"

text \<open>
  The logger with its calls in flight. An action starts a call, or settles the operation
  that the task at a position is waiting for; the task's successor takes its place.
\<close>

record logger_state =
  now :: world
  in_flight :: "task list"

datatype action = Issue request | Settle nat "string option"

fun act :: "action \<Rightarrow> logger_state \<Rightarrow> logger_state" where
  "act (Issue c) s =
     (case start_call c (now s) of
        None \<Rightarrow> s
      | Some t \<Rightarrow> s\<lparr>in_flight := in_flight s @ [t]\<rparr>)"
| "act (Settle i outcome) s =
     (if i < length (in_flight s)
      then (case resume (in_flight s ! i) outcome (now s) of
              (w1, next) \<Rightarrow>
                \<lparr>now = w1,
                 in_flight = take i (in_flight s) @
                   (case next of None \<Rightarrow> [] | Some t \<Rightarrow> [t]) @ drop (Suc i) (in_flight s)\<rparr>)
      else s)"

fun schedule :: "action list \<Rightarrow> logger_state \<Rightarrow> logger_state" where
  "schedule [] s = s"
| "schedule (a # as) s = schedule as (act a s)"

text \<open>The logger in a given world with no call in flight.\<close>

definition idle :: "world \<Rightarrow> logger_state" where
  "idle w = \<lparr>now = w, in_flight = []\<rparr>"


section \<open>The logging decorator\<close>

text \<open>
  A transport has three callback slots that other components assign
  (\<open>onmessage\<close>, \<open>onerror\<close>, \<open>onclose\<close>) and three methods. A callback is a closure:
  one handed in from outside (named by a number), or one of the closures that the
  decorator's \<open>start()\<close> builds around the callback it found, if any.
\<close>

datatype occurrence = Message JSONRPCMessage | Failed js_error | Closed

datatype callback =
    External nat
  | StartLogging
  | StartLoggingThen callback

record transport_slots =
  onmessage :: "callback option"
  onerror :: "callback option"
  onclose :: "callback option"

text \<open>
  What the rest of the system can observe: the calls made on the inner transport, the
  calls made on the logger, and the invocations of the callbacks handed in from outside.
\<close>

datatype observation =
    InnerStart
  | InnerSend JSONRPCMessage
  | InnerClose
  | Invoke nat occurrence
  | LogInitialize
  | LogMessage string JSONRPCMessage
  | LogError js_error
  | LogClose

text \<open>The logger call a wrapping closure makes for an event of the inner transport.\<close>

fun log_of :: "occurrence \<Rightarrow> observation" where
  "log_of (Message m) = LogMessage ''recv'' m"
| "log_of (Failed e) = LogError e"
| "log_of Closed = LogClose"

text \<open>\<open>ensureInitialized\<close>: the logger is initialised on first use, once.\<close>

definition ensureInitialized :: "bool \<Rightarrow> bool \<times> observation list" where
  "ensureInitialized initialized = (True, if initialized then [] else [LogInitialize])"

text \<open>
  Running a callback on an event. The closures of \<open>start()\<close> log (without awaiting the
  logger) and then call the callback they captured, if there was one.
\<close>

fun invoke :: "callback \<Rightarrow> occurrence \<Rightarrow> observation list" where
  "invoke (External n) occ = [Invoke n occ]"
| "invoke StartLogging occ = [log_of occ]"
| "invoke (StartLoggingThen original) occ = log_of occ # invoke original occ"

fun slot_of :: "occurrence \<Rightarrow> transport_slots \<Rightarrow> callback option" where
  "slot_of (Message _) t = onmessage t"
| "slot_of (Failed _) t = onerror t"
| "slot_of Closed t = onclose t"

text \<open>The operations a component performs on a transport, and the transport's events.\<close>

datatype operation =
    Start
  | Send JSONRPCMessage
  | Close
  | SetOnMessage "nat option"
  | SetOnError "nat option"
  | SetOnClose "nat option"
  | Fire occurrence

subsection \<open>The bare transport\<close>

fun bare :: "transport_slots \<Rightarrow> operation \<Rightarrow> transport_slots \<times> observation list" where
  "bare t Start = (t, [InnerStart])"
| "bare t (Send m) = (t, [InnerSend m])"
| "bare t Close = (t, [InnerClose])"
| "bare t (SetOnMessage cb) = (t\<lparr>onmessage := map_option External cb\<rparr>, [])"
| "bare t (SetOnError cb) = (t\<lparr>onerror := map_option External cb\<rparr>, [])"
| "bare t (SetOnClose cb) = (t\<lparr>onclose := map_option External cb\<rparr>, [])"
| "bare t (Fire occ) =
     (case slot_of occ t of None \<Rightarrow> (t, []) | Some cb \<Rightarrow> (t, invoke cb occ))"

fun bare_run :: "transport_slots \<Rightarrow> operation list \<Rightarrow> observation list" where
  "bare_run t [] = []"
| "bare_run t (x # xs) = (case bare t x of (t1, out) \<Rightarrow> out @ bare_run t1 xs)"

subsection \<open>The server's decorator (\<open>DebugTransportWrapper\<close> of debug-transport.ts)\<close>

record DebugTransportWrapper =
  wrappedTransport :: transport_slots
  initialized :: bool
  priv_onmessage :: "callback option"
  priv_onerror :: "callback option"
  priv_onclose :: "callback option"

definition wrap_original :: "callback option \<Rightarrow> callback" where
  "wrap_original original =
     (case original of None \<Rightarrow> StartLogging | Some cb \<Rightarrow> StartLoggingThen cb)"

text \<open>
  \<open>start()\<close> reads the three slots of the wrapped transport and replaces each by a
  logging closure around what it read; the setters store into the private fields.
\<close>

fun wrapper :: "DebugTransportWrapper \<Rightarrow> operation \<Rightarrow> DebugTransportWrapper \<times> observation list"
  where
  "wrapper d Start =
     (case ensureInitialized (initialized d) of (i, out) \<Rightarrow>
        (d\<lparr>initialized := i,
           wrappedTransport :=
             \<lparr>onmessage = Some (wrap_original (onmessage (wrappedTransport d))),
              onerror = Some (wrap_original (onerror (wrappedTransport d))),
              onclose = Some (wrap_original (onclose (wrappedTransport d)))\<rparr>\<rparr>,
         out @ [InnerStart]))"
| "wrapper d (Send m) =
     (case ensureInitialized (initialized d) of (i, out) \<Rightarrow>
        (d\<lparr>initialized := i\<rparr>, out @ [LogMessage ''send'' m, InnerSend m]))"
| "wrapper d Close = (d, [LogClose, InnerClose])"
| "wrapper d (SetOnMessage cb) = (d\<lparr>priv_onmessage := map_option External cb\<rparr>, [])"
| "wrapper d (SetOnError cb) = (d\<lparr>priv_onerror := map_option External cb\<rparr>, [])"
| "wrapper d (SetOnClose cb) = (d\<lparr>priv_onclose := map_option External cb\<rparr>, [])"
| "wrapper d (Fire occ) =
     (case slot_of occ (wrappedTransport d) of None \<Rightarrow> (d, [])
      | Some cb \<Rightarrow> (d, invoke cb occ))"

fun wrapper_run :: "DebugTransportWrapper \<Rightarrow> operation list \<Rightarrow> observation list" where
  "wrapper_run d [] = []"
| "wrapper_run d (x # xs) = (case wrapper d x of (d1, out) \<Rightarrow> out @ wrapper_run d1 xs)"

definition DebugTransportWrapper_new :: "transport_slots \<Rightarrow> DebugTransportWrapper" where
  "DebugTransportWrapper_new t =
     \<lparr>wrappedTransport = t, initialized = False, priv_onmessage = None,
      priv_onerror = None, priv_onclose = None\<rparr>"

definition no_callbacks :: transport_slots where
  "no_callbacks = \<lparr>onmessage = None, onerror = None, onclose = None\<rparr>"

section \<open>The transport factory (cli/src/transport.ts)\<close>

text \<open>
  A parsed URL with the fields of the platform's \<open>URL\<close> class. \<open>opaque_path\<close> marks a
  URL that cannot serve as a base (\<open>mailto:x\<close>), for which \<open>new URL(path, base)\<close>
  throws.
\<close>

record URL =
  protocol :: string
  username :: string
  password :: string
  hostname :: string
  port :: string
  pathname :: string
  search :: string
  hash :: string
  opaque_path :: bool

text \<open>
  A Windows drive letter as the URL standard has it: an ASCII letter followed by a colon
  (the parser has already turned \<open>C|\<close> into \<open>C:\<close> in a parsed path). A string starts
  with one when its first two characters are a letter and \<open>:\<close> or \<open>|\<close> and it ends
  there or goes on with a slash, a backslash, \<open>?\<close> or \<open>#\<close>.
\<close>

definition is_ascii_alpha :: "char \<Rightarrow> bool" where
  "is_ascii_alpha c =
     (c \<in> set ''abcdefghijklmnopqrstuvwxyz'' \<or> c \<in> set ''ABCDEFGHIJKLMNOPQRSTUVWXYZ'')"

fun is_normalized_drive_letter :: "string \<Rightarrow> bool" where
  "is_normalized_drive_letter [c, d] = (is_ascii_alpha c \<and> d = CHR '':'')"
| "is_normalized_drive_letter _ = False"

fun starts_with_drive_letter :: "string \<Rightarrow> bool" where
  "starts_with_drive_letter (c # d # rest) =
     (is_ascii_alpha c \<and> (d = CHR '':'' \<or> d = CHR ''|'') \<and>
      (case rest of [] \<Rightarrow> True
       | x # _ \<Rightarrow> x = CHR ''/'' \<or> x = CHR 0x5C \<or> x = CHR ''?'' \<or> x = CHR ''#''))"
| "starts_with_drive_letter _ = False"

text \<open>The first segment of a path: what stands between the leading slash and the next.\<close>

definition first_segment :: "string \<Rightarrow> string" where
  "first_segment p = takeWhile (\<lambda>c. c \<noteq> CHR ''/'') (drop 1 p)"

text \<open>
  \<open>new URL(path, base)\<close> for an absolute path of plain letters such as \<open>"/sse"\<close>. An
  opaque base is refused. Otherwise the base keeps its scheme, credentials, host and
  port, the query and the fragment are dropped, and the path is replaced; under a
  \<open>file:\<close> base whose path begins with a drive letter, that drive letter stays in front
  of the new path (\<open>file:///C:/foo/bar\<close> gives \<open>/C:/sse\<close>).
\<close>

definition URL_with_base :: "string \<Rightarrow> URL \<Rightarrow> string + URL" where
  "URL_with_base path base =
     (if opaque_path base then Inl ''Invalid URL''
      else if protocol base = ''file:'' \<and> \<not> starts_with_drive_letter (drop 1 path) \<and>
              is_normalized_drive_letter (first_segment (pathname base))
      then Inr (base\<lparr>pathname := CHR ''/'' # first_segment (pathname base) @ path,
                      search := [], hash := []\<rparr>)
      else Inr (base\<lparr>pathname := path, search := [], hash := []\<rparr>))"

text \<open>\<open>String.prototype.endsWith\<close>.\<close>

definition endsWith :: "string \<Rightarrow> string \<Rightarrow> bool" where
  "endsWith s suffix =
     (length suffix \<le> length s \<and> drop (length s - length suffix) s = suffix)"

record TransportOptions =
  transportType :: string
  command :: "string option"
  args :: "string list option"
  url :: "string option"

text \<open>The parameters \<open>StdioClientTransport\<close> is constructed with.\<close>

record StdioServerParameters =
  sp_command :: string
  sp_args :: "string list"
  sp_env :: "string \<rightharpoonup> string"
  sp_stderr :: string

datatype Transport =
    StdioClientTransport StdioServerParameters
  | SSEClientTransport URL
  | StreamableHTTPClientTransport URL
  | DebugTransportWrapperCli Transport string

text \<open>
  What the factory takes from outside the repository: the platform's URL parser
  (\<open>new URL(s)\<close>; \<open>None\<close> when it throws), \<open>findActualExecutable\<close> of spawn-rx (\<open>Inl\<close>
  when it throws), the entries of \<open>process.env\<close> in order (a value may be undefined),
  and the SDK's \<open>getDefaultEnvironment()\<close>.
\<close>

record platform =
  parseURL :: "string \<Rightarrow> URL option"
  findActualExecutable :: "string \<Rightarrow> string list \<Rightarrow> string + (string \<times> string list)"
  process_env :: "(string \<times> string option) list"
  getDefaultEnvironment :: "string \<rightharpoonup> string"

definition new_URL :: "platform \<Rightarrow> string \<Rightarrow> string + URL" where
  "new_URL P s = (case parseURL P s of None \<Rightarrow> Inl ''Invalid URL'' | Some u \<Rightarrow> Inr u)"

definition createSSETransport :: "platform \<Rightarrow> TransportOptions \<Rightarrow> string + Transport" where
  "createSSETransport P options =
     (case new_URL P (case url options of None \<Rightarrow> [] | Some u \<Rightarrow> u) of
        Inl e \<Rightarrow> Inl e
      | Inr baseUrl \<Rightarrow>
          (case (if endsWith (pathname baseUrl) ''/sse'' then Inr baseUrl
                 else URL_with_base ''/sse'' baseUrl) of
             Inl e \<Rightarrow> Inl e
           | Inr sseUrl \<Rightarrow> Inr (SSEClientTransport sseUrl)))"

definition createHTTPTransport :: "platform \<Rightarrow> TransportOptions \<Rightarrow> string + Transport" where
  "createHTTPTransport P options =
     (case new_URL P (case url options of None \<Rightarrow> [] | Some u \<Rightarrow> u) of
        Inl e \<Rightarrow> Inl e
      | Inr baseUrl \<Rightarrow>
          (case (if endsWith (pathname baseUrl) ''/mcp'' then Inr baseUrl
                 else URL_with_base ''/mcp'' baseUrl) of
             Inl e \<Rightarrow> Inl e
           | Inr mcpUrl \<Rightarrow> Inr (StreamableHTTPClientTransport mcpUrl)))"

text \<open>The loop over \<open>Object.entries(process.env)\<close> that fills \<open>processEnv\<close>.\<close>

fun copy_defined :: "(string \<times> string option) list \<Rightarrow> (string \<rightharpoonup> string) \<Rightarrow> (string \<rightharpoonup> string)"
  where
  "copy_defined [] processEnv = processEnv"
| "copy_defined ((key, None) # rest) processEnv = copy_defined rest processEnv"
| "copy_defined ((key, Some v) # rest) processEnv = copy_defined rest (processEnv(key \<mapsto> v))"

text \<open>\<open>{...processEnv, ...defaultEnv}\<close>: the keys of both, the later spread winning.\<close>

definition spread :: "(string \<rightharpoonup> string) \<Rightarrow> (string \<rightharpoonup> string) \<Rightarrow> (string \<rightharpoonup> string)" where
  "spread a b = (\<lambda>k. case b k of Some v \<Rightarrow> Some v | None \<Rightarrow> a k)"

definition createStdioTransport :: "platform \<Rightarrow> TransportOptions \<Rightarrow> string + Transport" where
  "createStdioTransport P options =
     (let a = (case args options of None \<Rightarrow> [] | Some x \<Rightarrow> x);
          processEnv = copy_defined (process_env P) Map.empty;
          defaultEnv = getDefaultEnvironment P;
          env = spread processEnv defaultEnv
      in case findActualExecutable P (case command options of None \<Rightarrow> [] | Some c \<Rightarrow> c) a of
           Inl e \<Rightarrow> Inl e
         | Inr (actualCommand, actualArgs) \<Rightarrow>
             Inr (StdioClientTransport
                    \<lparr>sp_command = actualCommand, sp_args = actualArgs, sp_env = env,
                     sp_stderr = ''pipe''\<rparr>))"







subsection \<open>The calls the factory makes\<close>









section \<open>Projections used in the statements\<close>


fun env_of :: "Transport \<Rightarrow> (string \<rightharpoonup> string)" where
  "env_of (StdioClientTransport p) = sp_env p"
| "env_of (DebugTransportWrapperCli t _) = env_of t"
| "env_of _ = Map.empty"

section \<open>Concrete inputs\<close>

text \<open>A request, a response, a notification, a failure and a freshly wired proxy.\<close>

definition request1 :: JSONRPCMessage where
  "request1 = \<lparr>jsonrpc = ''2.0'', msg_id = Some (IdNum 1), body = Call ''x'' None\<rparr>"

definition response7 :: JSONRPCMessage where
  "response7 = \<lparr>jsonrpc = ''2.0'', msg_id = Some (IdNum 7), body = Result JNull\<rparr>"

definition notification1 :: JSONRPCMessage where
  "notification1 =
     \<lparr>jsonrpc = ''2.0'', msg_id = None, body = Call ''notifications/initialized'' None\<rparr>"

definition econnrefused :: js_error where
  "econnrefused = JsError ''ECONNREFUSED'' None"

definition fresh :: proxy where
  "fresh = fst (mcpProxy None)"

text \<open>Two clock readings, a logger that was never opened and one with an open handle.\<close>

definition clock1 :: clock where
  "clock1 = \<lparr>hrtime_bigint = ''1000'', date_iso = ''2025-01-01T00:00:00.000Z''\<rparr>"

definition never_opened :: world where
  "never_opened =
     \<lparr>this = DebugLogger_new ''/tmp/mcp/debug'' None 42, process_pid = 42,
      log_file = [], closed_handles = [], console = []\<rparr>"

definition opened :: world where
  "opened = never_opened\<lparr>this := (this never_opened)\<lparr>logFileHandle := Some 3\<rparr>\<rparr>"


text \<open>
  A component assigns its \<open>onmessage\<close> callback (number 1) before or after \<open>start()\<close>,
  and the wrapped transport then delivers a message.
\<close>

definition assign_then_start :: "operation list" where
  "assign_then_start = [SetOnMessage (Some 1), Start, Fire (Message request1)]"

definition start_then_assign :: "operation list" where
  "start_then_assign = [Start, SetOnMessage (Some 1), Fire (Message request1)]"

text \<open>
  A platform: a parser that knows three URLs, an executable lookup that returns the command
  as given, a process environment with an undefined entry, and a default environment
  that shares the key \<open>PATH\<close> with it.
\<close>

definition localhost_api :: URL where
  "localhost_api =
     \<lparr>protocol = ''http:'', username = [], password = [], hostname = ''localhost'',
      port = ''3000'', pathname = ''/api'', search = ''?x=1'', hash = [], opaque_path = False\<rparr>"

definition localhost_sse :: URL where
  "localhost_sse = localhost_api\<lparr>pathname := ''/v1/sse'', search := []\<rparr>"

definition file_c_foo_bar :: URL where
  "file_c_foo_bar =
     \<lparr>protocol = ''file:'', username = [], password = [], hostname = [], port = [],
      pathname = ''/C:/foo/bar'', search = [], hash = [], opaque_path = False\<rparr>"

definition example_platform :: platform where
  "example_platform =
     \<lparr>parseURL = (\<lambda>s. if s = ''http://localhost:3000/api?x=1'' then Some localhost_api
                      else if s = ''http://localhost:3000/v1/sse'' then Some localhost_sse
                      else if s = ''file:///C:/foo/bar'' then Some file_c_foo_bar
                      else None),
      findActualExecutable = (\<lambda>c a. Inr (c, a)),
      process_env = [(''PATH'', Some ''/usr/local/bin''), (''HOME'', Some ''/home/u''),
                     (''UNSET'', None)],
      getDefaultEnvironment = [''PATH'' \<mapsto> ''/usr/bin'', ''SHELL'' \<mapsto> ''/bin/sh'']\<rparr>"



definition sse_options :: "string \<Rightarrow> TransportOptions" where
  "sse_options u = \<lparr>transportType = ''sse'', command = None, args = None, url = Some u\<rparr>"

definition http_options :: "string \<Rightarrow> TransportOptions" where
  "http_options u = \<lparr>transportType = ''http'', command = None, args = None, url = Some u\<rparr>"

definition stdio_options :: TransportOptions where
  "stdio_options =
     \<lparr>transportType = ''stdio'', command = Some ''node'', args = Some [''server.js''],
      url = None\<rparr>"

definition example_stdio :: Transport where
  "example_stdio =
     StdioClientTransport
       \<lparr>sp_command = ''node'', sp_args = [''server.js''],
        sp_env = spread (copy_defined (process_env example_platform) Map.empty)
                   (getDefaultEnvironment example_platform),
        sp_stderr = ''pipe''\<rparr>"

section \<open>Properties of the forwarding engine\<close>

lemma filter_reportServerSession:
  "filter is_transport_call (reportServerSession sid) = []"
  "filter is_close (reportServerSession sid) = []"
  by (cases sid; simp)+

lemma filter_onServerError:
  "filter is_transport_call (onServerError e) = []"
  "filter is_close (onServerError e) = []"
  by (simp_all add: onServerError_def)

lemma filter_onClientError:
  "filter is_transport_call (onClientError e) = []"
  "filter is_close (onClientError e) = []"
  by (simp_all add: onClientError_def)

lemma filter_debugLogger:
  "\<not> is_transport_call call \<Longrightarrow> filter is_transport_call (debugLogger s call) = []"
  "\<not> is_close call \<Longrightarrow> filter is_close (debugLogger s call) = []"
  by (simp_all add: debugLogger_def)

lemmas filter_calls =
  filter_reportServerSession filter_onServerError filter_onClientError filter_debugLogger

text \<open>
  C4. Each \<open>onmessage\<close> callback calls \<open>send\<close> on the paired transport exactly once, with
  the envelope it was given, and makes no other call on either transport: client to
  server and server to client alike, whatever the flags are.
\<close>

theorem forward_unchanged:
  "transport_calls (snd (step s (ClientOnMessage m))) = [SendToServer m] \<and>
   transport_calls (snd (step s (ServerOnMessage m sid))) = [SendToClient m]"
  by (simp add: transport_calls_def filter_calls)

theorem forward_unchanged_witness:
  "transport_calls (snd (step fresh (ClientOnMessage request1))) = [SendToServer request1] \<and>
   transport_calls (snd (step fresh (ServerOnMessage response7 (Some ''abc'')))) =
     [SendToClient response7]"
  using forward_unchanged [where s = fresh and m = request1]
    forward_unchanged [where s = fresh and m = response7 and sid = "Some ''abc''"]
  by simp

text \<open>
  C1, as the code has it. When the forward of \<open>m\<close> to the server is rejected, the calls
  made on the transports are exactly one \<open>send\<close> to the client of the reply
  \<open>{jsonrpc: "2.0", id: m.id, error: {code: -32001, message: error.message, data: error}}\<close>
  if \<open>m\<close> is a JSON-RPC request (version tag, id and method) and the client side is not
  marked closed at that moment, and no call at all otherwise: a notification, and also a
  response (which carries an id), gets no reply.
\<close>

theorem send_failure_reply:
  "transport_calls (snd (step s (ServerSendRejected m e))) =
     (if isJSONRPCRequest m \<and> \<not> transportToClientClosed s
      then [SendToClient \<lparr>jsonrpc = ''2.0'', msg_id = msg_id m,
              body = Failure (- 32001) (err_message e) (Some (DataError e))\<rparr>]
      else [])"
  by (simp add: transport_calls_def filter_calls errorResponse_def)

theorem send_failure_reply_witness:
  "transport_calls (snd (step fresh (ServerSendRejected request1 econnrefused))) =
     [SendToClient \<lparr>jsonrpc = ''2.0'', msg_id = Some (IdNum 1),
        body = Failure (- 32001) ''ECONNREFUSED'' (Some (DataError econnrefused))\<rparr>] \<and>
   transport_calls (snd (step fresh (ServerSendRejected notification1 econnrefused))) = [] \<and>
   transport_calls
     (snd (step (fresh\<lparr>transportToClientClosed := True\<rparr>)
        (ServerSendRejected request1 econnrefused))) = []"
  using send_failure_reply [where s = fresh and m = request1 and e = econnrefused]
    send_failure_reply [where s = fresh and m = notification1 and e = econnrefused]
    send_failure_reply [where s = "fresh\<lparr>transportToClientClosed := True\<rparr>"
      and m = request1 and e = econnrefused]
  by (simp add: isJSONRPCRequest_def request1_def notification1_def econnrefused_def
      fresh_def mcpProxy_def)

text \<open>
  C1 as stated fails: a response from the client carries the correlation id 7, the
  client side is open, the forward is rejected, and nothing is sent back.
\<close>

theorem response_with_id_gets_no_reply:
  "msg_id response7 = Some (IdNum 7) \<and> \<not> transportToClientClosed fresh \<and>
   transport_calls (snd (step fresh (ServerSendRejected response7 econnrefused))) = []"
  by (simp add: transport_calls_def debugLogger_def isJSONRPCRequest_def response7_def
      fresh_def mcpProxy_def)

text \<open>
  C3. No callback other than the two \<open>onclose\<close> callbacks calls \<open>close()\<close> on a transport
  or changes a closed flag. The \<open>onerror\<close> callbacks and the rejection of a send to the
  client make no call on a transport at all; the rejection of a send to the server makes
  at most the one \<open>send\<close> of the synthesized reply.
\<close>

theorem errors_never_close:
  "(e \<noteq> ClientOnClose \<and> e \<noteq> ServerOnClose \<longrightarrow>
      closes (snd (step s e)) = [] \<and>
      transportToClientClosed (fst (step s e)) = transportToClientClosed s \<and>
      transportToServerClosed (fst (step s e)) = transportToServerClosed s) \<and>
   transport_calls (snd (step s (ClientOnError err))) = [] \<and>
   transport_calls (snd (step s (ServerOnError err))) = [] \<and>
   transport_calls (snd (step s (ClientSendRejected err))) = [] \<and>
   transport_calls (snd (step s (ServerSendRejected m err))) =
     (if isJSONRPCRequest m \<and> \<not> transportToClientClosed s
      then [SendToClient (errorResponse m err)] else [])"
proof -
  have "closes (snd (step s e)) = [] \<and>
      transportToClientClosed (fst (step s e)) = transportToClientClosed s \<and>
      transportToServerClosed (fst (step s e)) = transportToServerClosed s"
    if "e \<noteq> ClientOnClose" "e \<noteq> ServerOnClose"
    using that by (cases e) (simp_all add: closes_def filter_calls)
  moreover have "transport_calls (snd (step s (ClientOnError err))) = []"
    "transport_calls (snd (step s (ServerOnError err))) = []"
    "transport_calls (snd (step s (ClientSendRejected err))) = []"
    "transport_calls (snd (step s (ServerSendRejected m err))) =
     (if isJSONRPCRequest m \<and> \<not> transportToClientClosed s
      then [SendToClient (errorResponse m err)] else [])"
    by (simp_all add: transport_calls_def filter_calls)
  ultimately show ?thesis by blast
qed

theorem errors_never_close_witness:
  "closes (snd (step fresh (ServerSendRejected request1 econnrefused))) = [] \<and>
   closes (snd (step fresh (ServerOnError econnrefused))) = [] \<and>
   \<not> transportToClientClosed (fst (step fresh (ServerOnError econnrefused))) \<and>
   \<not> transportToServerClosed (fst (step fresh (ServerOnError econnrefused)))"
  using errors_never_close [where e = "ServerSendRejected request1 econnrefused" and s = fresh]
    errors_never_close [where e = "ServerOnError econnrefused" and s = fresh]
  by (simp add: fresh_def mcpProxy_def)

lemma closes_run_Cons:
  "closes (snd (run s (e # es))) =
     closes (snd (step s e)) @ closes (snd (run (fst (step s e)) es))"
  by (simp add: closes_def split: prod.split)

lemma step_after_client_closed:
  assumes "transportToClientClosed s" "\<not> transportToServerClosed s"
  shows "transportToClientClosed (fst (step s e)) \<and> \<not> transportToServerClosed (fst (step s e)) \<and>
         closes (snd (step s e)) = (if e = ClientOnClose then [CloseServer] else [])"
  using assms by (cases e) (simp_all add: closes_def filter_calls)

lemma step_after_server_closed:
  assumes "transportToServerClosed s" "\<not> transportToClientClosed s"
  shows "transportToServerClosed (fst (step s e)) \<and> \<not> transportToClientClosed (fst (step s e)) \<and>
         closes (snd (step s e)) = (if e = ServerOnClose then [CloseClient] else [])"
  using assms by (cases e) (simp_all add: closes_def filter_calls)

lemma run_after_client_closed:
  "transportToClientClosed s \<Longrightarrow> \<not> transportToServerClosed s \<Longrightarrow>
   closes (snd (run s es)) = replicate (count_list es ClientOnClose) CloseServer"
proof (induction es arbitrary: s)
  case Nil
  then show ?case by (simp add: closes_def)
next
  case (Cons e es)
  from step_after_client_closed [OF Cons.prems, of e]
  have inv: "transportToClientClosed (fst (step s e))" "\<not> transportToServerClosed (fst (step s e))"
    and c1: "closes (snd (step s e)) = (if e = ClientOnClose then [CloseServer] else [])"
    by simp_all
  show ?case
    unfolding closes_run_Cons c1 Cons.IH [OF inv] by simp
qed

lemma run_after_server_closed:
  "transportToServerClosed s \<Longrightarrow> \<not> transportToClientClosed s \<Longrightarrow>
   closes (snd (run s es)) = replicate (count_list es ServerOnClose) CloseClient"
proof (induction es arbitrary: s)
  case Nil
  then show ?case by (simp add: closes_def)
next
  case (Cons e es)
  from step_after_server_closed [OF Cons.prems, of e]
  have inv: "transportToServerClosed (fst (step s e))" "\<not> transportToClientClosed (fst (step s e))"
    and c1: "closes (snd (step s e)) = (if e = ServerOnClose then [CloseClient] else [])"
    by simp_all
  show ?case
    unfolding closes_run_Cons c1 Cons.IH [OF inv] by simp
qed

text \<open>
  C2, as the code has it. On a pair where neither side is marked closed, the first
  \<open>onclose\<close> of one side calls \<open>close()\<close> on the paired transport exactly once. From then
  on, whatever events follow, no \<open>onclose\<close> of the paired side closes the first side, and
  the only closes made are one \<open>close()\<close> of the paired transport for each further
  \<open>onclose\<close> event of the first side: the closes of a whole run are one more than the
  number of repeated \<open>onclose\<close> events of the first side, all on the paired transport.
\<close>

theorem close_propagation:
  assumes "\<not> transportToClientClosed s" and "\<not> transportToServerClosed s"
  shows "closes (snd (step s ClientOnClose)) = [CloseServer] \<and>
         closes (snd (run s (ClientOnClose # es))) =
           replicate (Suc (count_list es ClientOnClose)) CloseServer \<and>
         closes (snd (step s ServerOnClose)) = [CloseClient] \<and>
         closes (snd (run s (ServerOnClose # es))) =
           replicate (Suc (count_list es ServerOnClose)) CloseClient"
proof -
  have c: "closes (snd (step s ClientOnClose)) = [CloseServer]"
    and sv: "closes (snd (step s ServerOnClose)) = [CloseClient]"
    using assms by (simp_all add: closes_def filter_calls)
  have "transportToClientClosed (fst (step s ClientOnClose))"
    "\<not> transportToServerClosed (fst (step s ClientOnClose))"
    using assms by simp_all
  from run_after_client_closed [OF this, of es]
  have rc: "closes (snd (run s (ClientOnClose # es))) =
           replicate (Suc (count_list es ClientOnClose)) CloseServer"
    unfolding closes_run_Cons c by simp
  have "transportToServerClosed (fst (step s ServerOnClose))"
    "\<not> transportToClientClosed (fst (step s ServerOnClose))"
    using assms by simp_all
  from run_after_server_closed [OF this, of es]
  have rs: "closes (snd (run s (ServerOnClose # es))) =
           replicate (Suc (count_list es ServerOnClose)) CloseClient"
    unfolding closes_run_Cons sv by simp
  from c sv rc rs show ?thesis by simp
qed

theorem close_propagation_witness:
  "\<not> transportToClientClosed fresh \<and> \<not> transportToServerClosed fresh \<and>
   closes (snd (run fresh [ClientOnClose, ServerOnClose])) = [CloseServer] \<and>
   closes (snd (run fresh [ServerOnClose, ClientOnClose])) = [CloseClient]"
proof -
  have f: "\<not> transportToClientClosed fresh" "\<not> transportToServerClosed fresh"
    by (simp_all add: fresh_def mcpProxy_def)
  from close_propagation [OF f, of "[ServerOnClose]"]
    close_propagation [OF f, of "[ClientOnClose]"] f
  show ?thesis by simp
qed

text \<open>
  C2 as stated fails: the client closes, the server's resulting \<open>onclose\<close> arrives, and a
  second \<open>onclose\<close> of the client calls \<open>close()\<close> on the server transport again.
\<close>

theorem second_close_closes_again:
  "closes (snd (run fresh [ClientOnClose, ServerOnClose, ClientOnClose])) =
     [CloseServer, CloseServer]"
  by (simp add: fresh_def mcpProxy_def closes_def debugLogger_def)

section \<open>Properties of the debug logger\<close>

lemmas io_defs = io_bind_def io_get_def io_return_def try_catch_def

lemma logMessage_returns: "fst (logMessage d m c wo so w) = Inr ()"
  by (simp add: logMessage_def io_defs handle_write_def handle_sync_def console_error_def
      Let_def split: option.split)

lemma logError_returns: "fst (logError e c wo w) = Inr ()"
  by (simp add: logError_def io_defs handle_write_def Let_def split: option.split)

lemma logClose_returns: "fst (logClose c wo co w) = Inr ()"
  by (simp add: logClose_def close_logFileHandle_def io_defs io_throw_def handle_write_def
      handle_close_def set_logFileHandle_def split: option.split)

lemma initialize_returns: "fst (initialize mo oo w) = Inr ()"
  by (simp add: initialize_def io_defs fs_mkdir_def fs_open_def set_logFileHandle_def
      console_error_def split: option.split sum.split)

lemma exec_call_returns: "fst (exec_call c w) = Inr ()"
  by (cases c) (simp_all add: logMessage_returns logError_returns logClose_returns)

lemma run_calls_returns: "fst (run_calls cs w) = Inr ()"
proof (induction cs arbitrary: w)
  case Nil
  show ?case by (simp add: io_return_def)
next
  case (Cons c cs)
  obtain r w1 where e: "exec_call c w = (r, w1)" by (cases "exec_call c w")
  with exec_call_returns [of c w] have "r = Inr ()" by simp
  with e Cons.IH [of w1] show ?case by (simp add: io_bind_def)
qed

lemma no_handle_noop:
  assumes "logFileHandle (this w) = None"
  shows "logMessage d m c wo so w = (Inr (), w)"
    and "logError e c wo w = (Inr (), w)"
    and "logClose c wo co w = (Inr (), w)"
  using assms by (simp_all add: logMessage_def logError_def logClose_def io_defs)

lemma no_handle_exec: "logFileHandle (this w) = None \<Longrightarrow> exec_call c w = (Inr (), w)"
  by (cases c) (simp_all add: no_handle_noop)

lemma no_handle_run: "logFileHandle (this w) = None \<Longrightarrow> run_calls cs w = (Inr (), w)"
  by (induction cs) (simp_all add: io_return_def io_bind_def no_handle_exec)

lemma failed_initialize:
  assumes "logFileHandle (this w) = None"
    and "(dirname (logFilePath (this w)) \<noteq> ''.'' \<and> mo \<noteq> None) \<or> isl oo"
  shows "logFileHandle (this (snd (initialize mo oo w))) = None"
    and "log_file (snd (initialize mo oo w)) = log_file w"
  using assms
  by (auto simp add: initialize_def io_defs fs_mkdir_def fs_open_def set_logFileHandle_def
      console_error_def isl_def split: option.split sum.split)


text \<open>
  C6. No call on the logger throws, whatever the file system does: \<open>initialize\<close>,
  \<open>logMessage\<close>, \<open>logError\<close>, \<open>logClose\<close> and every sequence of the three logging calls
  return normally for every outcome of \<open>mkdir\<close>, \<open>open\<close>, \<open>write\<close>, \<open>sync\<close> and
  \<open>close\<close>. On an instance without a file handle (never initialised) each logging call,
  and every sequence of them, returns and leaves the world as it was: nothing is appended.
  An \<open>initialize\<close> on such an instance whose \<open>mkdir\<close> or \<open>open\<close> fails leaves it without
  a handle, so nothing is appended by any calls after it either.
\<close>

theorem logging_never_fails:
  "fst (initialize mo oo w) = Inr () \<and>
   fst (logMessage d m c wo so w) = Inr () \<and>
   fst (logError e c wo w) = Inr () \<and>
   fst (logClose c wo co w) = Inr () \<and>
   fst (run_calls calls w) = Inr () \<and>
   (logFileHandle (this w) = None \<longrightarrow>
      logMessage d m c wo so w = (Inr (), w) \<and>
      logError e c wo w = (Inr (), w) \<and>
      logClose c wo co w = (Inr (), w) \<and>
      run_calls calls w = (Inr (), w) \<and>
      ((dirname (logFilePath (this w)) \<noteq> ''.'' \<and> mo \<noteq> None) \<or> isl oo \<longrightarrow>
         logFileHandle (this (snd (initialize mo oo w))) = None \<and>
         log_file (snd (initialize mo oo w)) = log_file w \<and>
         log_file (snd (run_calls calls (snd (initialize mo oo w)))) = log_file w))"
proof -
  have returns: "fst (initialize mo oo w) = Inr ()" "fst (logMessage d m c wo so w) = Inr ()"
    "fst (logError e c wo w) = Inr ()" "fst (logClose c wo co w) = Inr ()"
    "fst (run_calls calls w) = Inr ()"
    by (rule initialize_returns logMessage_returns logError_returns logClose_returns
        run_calls_returns)+
  have noop: "logMessage d m c wo so w = (Inr (), w) \<and>
      logError e c wo w = (Inr (), w) \<and>
      logClose c wo co w = (Inr (), w) \<and>
      run_calls calls w = (Inr (), w)"
    if "logFileHandle (this w) = None"
    using no_handle_noop [OF that] no_handle_run [OF that] by simp
  have failed: "logFileHandle (this (snd (initialize mo oo w))) = None \<and>
         log_file (snd (initialize mo oo w)) = log_file w \<and>
         log_file (snd (run_calls calls (snd (initialize mo oo w)))) = log_file w"
    if "logFileHandle (this w) = None"
      and "(dirname (logFilePath (this w)) \<noteq> ''.'' \<and> mo \<noteq> None) \<or> isl oo"
    using failed_initialize [OF that] no_handle_run [of "snd (initialize mo oo w)" calls]
    by simp
  from returns noop failed show ?thesis by simp
qed

theorem logging_never_fails_witness:
  "logFileHandle (this never_opened) = None \<and>
   isl (Inl ''EACCES'' :: string + nat) \<and>
   logFileHandle (this (snd (initialize None (Inl ''EACCES'') never_opened))) = None \<and>
   log_file (snd (run_calls
       [CallLogMessage ''send'' request1 clock1 None None, CallLogError econnrefused clock1 None,
        CallLogClose clock1 None None]
       (snd (initialize None (Inl ''EACCES'') never_opened)))) = [] \<and>
   fst (logMessage ''send'' request1 clock1 (Some ''ENOSPC'') None opened) = Inr ()"
proof -
  have h: "logFileHandle (this never_opened) = None"
    by (simp add: never_opened_def DebugLogger_new_def)
  have l: "log_file never_opened = []"
    by (simp add: never_opened_def)
  from logging_never_fails [where w = never_opened and mo = None and oo = "Inl ''EACCES''"
      and calls = "[CallLogMessage ''send'' request1 clock1 None None,
        CallLogError econnrefused clock1 None, CallLogClose clock1 None None]"]
    logging_never_fails [where w = opened and d = "''send''" and m = request1 and c = clock1
      and wo = "Some ''ENOSPC''" and so = None]
    h l
  show ?thesis by simp
qed

text \<open>
  The steps of one call, taken back to back from a logger with nothing in flight, are the
  call as defined above.
\<close>

lemma logMessage_by_steps:
  "schedule [Issue (StartLogMessage d m c), Settle 0 wo, Settle 0 so] (idle w) =
     idle (snd (logMessage d m c wo so w))"
  by (cases wo; cases so)
    (simp_all add: idle_def logMessage_def io_defs handle_write_def handle_sync_def
      console_error_def Let_def)

lemma logError_by_steps:
  "schedule [Issue (StartLogError e c), Settle 0 wo] (idle w) = idle (snd (logError e c wo w))"
  by (cases wo) (simp_all add: idle_def logError_def io_defs handle_write_def Let_def)












text \<open>
  A call started before the field is \<open>null\<close> can still write after the close record: the
  proxy starts a \<open>logMessage\<close> while \<open>logClose\<close> is suspended at its write.
\<close>

lemma entry_in_flight_lands_after_close:
  "map direction
     (log_file (now (schedule
        [Issue (StartLogClose clock1),
         Issue (StartLogMessage ''server->client'' response7 clock1),
         Settle 0 None, Settle 1 None, Settle 0 None, Settle 0 None]
        (idle opened)))) = [''close'', ''server->client'']"
  by (simp add: idle_def opened_def never_opened_def DebugLogger_new_def close_entry_def
      handle_write_def handle_close_def handle_sync_def set_logFileHandle_def)

section \<open>Properties of the logging decorator\<close>

text \<open>
  C5 fails on the server's decorator. Its setters store the callback in a private field
  that only the getter reads; \<open>start()\<close> wraps what the wrapped transport's own slots
  held. A
  callback assigned to the decorator, before or after \<open>start()\<close>, is never invoked: on
  the bare transport the message reaches callback 1, on the decorated one it is logged
  and dropped.
\<close>

theorem server_decorator_drops_callbacks:
  "bare_run no_callbacks assign_then_start = [InnerStart, Invoke 1 (Message request1)] \<and>
   wrapper_run (DebugTransportWrapper_new no_callbacks) assign_then_start =
     [LogInitialize, InnerStart, LogMessage ''recv'' request1] \<and>
   bare_run no_callbacks start_then_assign = [InnerStart, Invoke 1 (Message request1)] \<and>
   wrapper_run (DebugTransportWrapper_new no_callbacks) start_then_assign =
     [LogInitialize, InnerStart, LogMessage ''recv'' request1]"
  by (simp add: assign_then_start_def start_then_assign_def no_callbacks_def
      DebugTransportWrapper_new_def ensureInitialized_def wrap_original_def)

section \<open>Properties of the transport factory\<close>

lemma copy_defined_other:
  "\<forall>v. (k, Some v) \<notin> set entries \<Longrightarrow> copy_defined entries acc k = acc k"
proof (induction entries arbitrary: acc)
  case Nil
  show ?case by simp
next
  case (Cons x entries)
  obtain key val where x: "x = (key, val)" by (cases x)
  from Cons.prems x have rest: "\<forall>v. (k, Some v) \<notin> set entries" by simp
  show ?case
  proof (cases val)
    case None
    with x Cons.IH [OF rest] show ?thesis by simp
  next
    case (Some v)
    with Cons.prems x have ne: "k \<noteq> key" by auto
    note ih = Cons.IH [OF rest, of "acc(key \<mapsto> v)"]
    have "copy_defined entries (acc(key \<mapsto> v)) k = acc k"
      by (simp only: ih fun_upd_other [OF ne])
    then show ?thesis by (simp only: x Some copy_defined.simps)
  qed
qed

lemma copy_defined_member:
  "distinct (map fst entries) \<Longrightarrow> (k, Some v) \<in> set entries \<Longrightarrow>
   copy_defined entries acc k = Some v"
proof (induction entries arbitrary: acc)
  case Nil
  then show ?case by simp
next
  case (Cons x entries)
  obtain key val where x: "x = (key, val)" by (cases x)
  from Cons.prems x have d: "distinct (map fst entries)" and fresh: "key \<notin> fst ` set entries"
    by simp_all
  show ?case
  proof (cases "(k, Some v) \<in> set entries")
    case True
    from Cons.IH [OF d True] x show ?thesis by (cases val) simp_all
  next
    case False
    with Cons.prems x have kv: "key = k" "val = Some v" by simp_all
    from fresh kv have "\<forall>u. (k, Some u) \<notin> set entries" by (auto simp: image_iff)
    from copy_defined_other [OF this, of "acc(k \<mapsto> v)"] x kv show ?thesis by simp
  qed
qed

lemma copy_defined_dom:
  "dom (copy_defined entries acc) = dom acc \<union> {k. \<exists>v. (k, Some v) \<in> set entries}"
proof (induction entries arbitrary: acc)
  case Nil
  show ?case by simp
next
  case (Cons x entries)
  obtain key val where x: "x = (key, val)" by (cases x)
  show ?case
  proof (cases val)
    case None
    with x Cons.IH [of acc] show ?thesis by auto
  next
    case (Some v)
    have s: "{k. \<exists>u. (k, Some u) \<in> set (x # entries)} =
        insert key {k. \<exists>u. (k, Some u) \<in> set entries}"
      using x Some by auto
    have "dom (copy_defined (x # entries) acc) = dom (copy_defined entries (acc(key \<mapsto> v)))"
      by (simp only: x Some copy_defined.simps)
    also have "\<dots> = dom (acc(key \<mapsto> v)) \<union> {k. \<exists>u. (k, Some u) \<in> set entries}"
      by (rule Cons.IH)
    also have "\<dots> = dom acc \<union> {k. \<exists>u. (k, Some u) \<in> set (x # entries)}"
      unfolding s by simp
    finally show ?thesis .
  qed
qed

lemma spread_apply:
  "spread a b k = (case b k of Some v \<Rightarrow> Some v | None \<Rightarrow> a k)"
  by (simp add: spread_def)

lemma dom_spread: "dom (spread a b) = dom a \<union> dom b"
  by (auto simp add: spread_def dom_def split: option.splits)

text \<open>
  C9. The environment of a stdio transport that \<open>createStdioTransport\<close> returns has as
  keys every key of \<open>process.env\<close> with a defined value together with the keys of the
  default environment; a key of the default environment has the default's value, also
  when \<open>process.env\<close> defines it; every other defined entry of \<open>process.env\<close> is passed
  on with its value.
\<close>

theorem stdio_environment:
  assumes "createStdioTransport P options = Inr t"
  shows "dom (env_of t) =
           {k. \<exists>v. (k, Some v) \<in> set (process_env P)} \<union> dom (getDefaultEnvironment P) \<and>
         (\<forall>k v. getDefaultEnvironment P k = Some v \<longrightarrow> env_of t k = Some v) \<and>
         (\<forall>k v. getDefaultEnvironment P k = None \<and> distinct (map fst (process_env P)) \<and>
                 (k, Some v) \<in> set (process_env P) \<longrightarrow> env_of t k = Some v)"
proof -
  from assms have e: "env_of t = spread (copy_defined (process_env P) Map.empty)
      (getDefaultEnvironment P)"
    by (auto simp add: createStdioTransport_def Let_def split: sum.splits)
  show ?thesis
    unfolding e
    by (auto simp add: dom_spread copy_defined_dom spread_apply copy_defined_member)
qed

theorem stdio_environment_witness:
  "createStdioTransport example_platform stdio_options = Inr example_stdio \<and>
   env_of example_stdio ''PATH'' = Some ''/usr/bin'' \<and>
   env_of example_stdio ''SHELL'' = Some ''/bin/sh'' \<and>
   env_of example_stdio ''HOME'' = Some ''/home/u'' \<and>
   env_of example_stdio ''UNSET'' = None"
proof -
  have c: "createStdioTransport example_platform stdio_options = Inr example_stdio"
    by (simp add: createStdioTransport_def example_platform_def stdio_options_def
        example_stdio_def)
  have d: "getDefaultEnvironment example_platform ''PATH'' = Some ''/usr/bin''"
    "getDefaultEnvironment example_platform ''SHELL'' = Some ''/bin/sh''"
    "getDefaultEnvironment example_platform ''HOME'' = None"
    "getDefaultEnvironment example_platform ''UNSET'' = None"
    by (simp_all add: example_platform_def)
  have p: "distinct (map fst (process_env example_platform))"
    "(''HOME'', Some ''/home/u'') \<in> set (process_env example_platform)"
    "\<forall>v. (''UNSET'', Some v) \<notin> set (process_env example_platform)"
    by (simp_all add: example_platform_def)
  from stdio_environment [OF c] d p
  have "env_of example_stdio ''PATH'' = Some ''/usr/bin''"
    "env_of example_stdio ''SHELL'' = Some ''/bin/sh''"
    "env_of example_stdio ''HOME'' = Some ''/home/u''"
    "''UNSET'' \<notin> dom (env_of example_stdio)"
    by (blast, blast, blast, auto simp add: dom_def)
  with c show ?thesis by (simp add: dom_def)
qed

lemma endsWith_append: "endsWith (xs @ s) s"
  by (simp add: endsWith_def)

lemma endsWith_self: "endsWith s s"
  using endsWith_append [of "[]" s] by simp

lemma URL_with_base_result:
  assumes "URL_with_base path b = Inr t"
  shows "protocol t = protocol b \<and> username t = username b \<and> password t = password b \<and>
         hostname t = hostname b \<and> port t = port b \<and> search t = [] \<and> hash t = [] \<and>
         pathname t =
           (if protocol b = ''file:'' \<and> \<not> starts_with_drive_letter (drop 1 path) \<and>
               is_normalized_drive_letter (first_segment (pathname b))
            then CHR ''/'' # first_segment (pathname b) @ path else path)"
  using assms by (auto simp add: URL_with_base_def split: if_splits)

lemma no_drive_letter:
  "\<not> starts_with_drive_letter (drop 1 ''/sse'')" "\<not> starts_with_drive_letter (drop 1 ''/mcp'')"
  by simp_all

text \<open>
  C8. For a URL the parser accepts, \<open>createSSETransport\<close> uses the parsed URL as it is
  when its path ends with \<open>/sse\<close>, and otherwise \<open>new URL("/sse", baseUrl)\<close>;
  \<open>createHTTPTransport\<close> likewise with \<open>/mcp\<close>. The URL of a transport it returns has a
  path ending with the conventional path and the scheme, credentials, host and port of
  the given URL; when the given path did not end with it, the query and the fragment are
  gone and the path is the conventional path, after the drive letter of the given URL
  when that is a \<open>file:\<close> URL with one.
\<close>

theorem url_normalisation:
  assumes "parseURL P u = Some b"
  shows "createSSETransport P (options\<lparr>url := Some u\<rparr>) =
           (if endsWith (pathname b) ''/sse'' then Inr (SSEClientTransport b)
            else map_sum id SSEClientTransport (URL_with_base ''/sse'' b)) \<and>
         createHTTPTransport P (options\<lparr>url := Some u\<rparr>) =
           (if endsWith (pathname b) ''/mcp'' then Inr (StreamableHTTPClientTransport b)
            else map_sum id StreamableHTTPClientTransport (URL_with_base ''/mcp'' b)) \<and>
         (\<forall>t. createSSETransport P (options\<lparr>url := Some u\<rparr>) = Inr (SSEClientTransport t) \<longrightarrow>
              endsWith (pathname t) ''/sse'' \<and> protocol t = protocol b \<and>
              username t = username b \<and> password t = password b \<and>
              hostname t = hostname b \<and> port t = port b \<and>
              (\<not> endsWith (pathname b) ''/sse'' \<longrightarrow>
                 pathname t =
                   (if protocol b = ''file:'' \<and>
                       is_normalized_drive_letter (first_segment (pathname b))
                    then CHR ''/'' # first_segment (pathname b) @ ''/sse'' else ''/sse'') \<and>
                 search t = [] \<and> hash t = [])) \<and>
         (\<forall>t. createHTTPTransport P (options\<lparr>url := Some u\<rparr>) =
                Inr (StreamableHTTPClientTransport t) \<longrightarrow>
              endsWith (pathname t) ''/mcp'' \<and> protocol t = protocol b \<and>
              username t = username b \<and> password t = password b \<and>
              hostname t = hostname b \<and> port t = port b \<and>
              (\<not> endsWith (pathname b) ''/mcp'' \<longrightarrow>
                 pathname t =
                   (if protocol b = ''file:'' \<and>
                       is_normalized_drive_letter (first_segment (pathname b))
                    then CHR ''/'' # first_segment (pathname b) @ ''/mcp'' else ''/mcp'') \<and>
                 search t = [] \<and> hash t = []))"
proof -
  have sse: "createSSETransport P (options\<lparr>url := Some u\<rparr>) =
           (if endsWith (pathname b) ''/sse'' then Inr (SSEClientTransport b)
            else map_sum id SSEClientTransport (URL_with_base ''/sse'' b))"
    using assms
    by (cases "URL_with_base ''/sse'' b") (simp_all add: createSSETransport_def new_URL_def)
  have http: "createHTTPTransport P (options\<lparr>url := Some u\<rparr>) =
           (if endsWith (pathname b) ''/mcp'' then Inr (StreamableHTTPClientTransport b)
            else map_sum id StreamableHTTPClientTransport (URL_with_base ''/mcp'' b))"
    using assms
    by (cases "URL_with_base ''/mcp'' b") (simp_all add: createHTTPTransport_def new_URL_def)
  have t1: "endsWith (pathname t) ''/sse'' \<and> protocol t = protocol b \<and>
              username t = username b \<and> password t = password b \<and>
              hostname t = hostname b \<and> port t = port b \<and>
              (\<not> endsWith (pathname b) ''/sse'' \<longrightarrow>
                 pathname t =
                   (if protocol b = ''file:'' \<and>
                       is_normalized_drive_letter (first_segment (pathname b))
                    then CHR ''/'' # first_segment (pathname b) @ ''/sse'' else ''/sse'') \<and>
                 search t = [] \<and> hash t = [])"
    if c: "createSSETransport P (options\<lparr>url := Some u\<rparr>) = Inr (SSEClientTransport t)" for t
  proof (cases "endsWith (pathname b) ''/sse''")
    case True
    with c sse show ?thesis by simp
  next
    case False
    with c sse have "URL_with_base ''/sse'' b = Inr t"
      by (cases "URL_with_base ''/sse'' b") simp_all
    from URL_with_base_result [OF this] False no_drive_letter(1)
    show ?thesis
      using endsWith_append [of "CHR ''/'' # first_segment (pathname b)" "''/sse''"]
        endsWith_self [of "''/sse''"]
      by (simp split: if_splits)
  qed
  have t2: "endsWith (pathname t) ''/mcp'' \<and> protocol t = protocol b \<and>
              username t = username b \<and> password t = password b \<and>
              hostname t = hostname b \<and> port t = port b \<and>
              (\<not> endsWith (pathname b) ''/mcp'' \<longrightarrow>
                 pathname t =
                   (if protocol b = ''file:'' \<and>
                       is_normalized_drive_letter (first_segment (pathname b))
                    then CHR ''/'' # first_segment (pathname b) @ ''/mcp'' else ''/mcp'') \<and>
                 search t = [] \<and> hash t = [])"
    if c: "createHTTPTransport P (options\<lparr>url := Some u\<rparr>) =
                Inr (StreamableHTTPClientTransport t)" for t
  proof (cases "endsWith (pathname b) ''/mcp''")
    case True
    with c http show ?thesis by simp
  next
    case False
    with c http have "URL_with_base ''/mcp'' b = Inr t"
      by (cases "URL_with_base ''/mcp'' b") simp_all
    from URL_with_base_result [OF this] False no_drive_letter(2)
    show ?thesis
      using endsWith_append [of "CHR ''/'' # first_segment (pathname b)" "''/mcp''"]
        endsWith_self [of "''/mcp''"]
      by (simp split: if_splits)
  qed
  from sse http t1 t2 show ?thesis by blast
qed

theorem url_normalisation_witness:
  "parseURL example_platform ''http://localhost:3000/api?x=1'' = Some localhost_api \<and>
   createSSETransport example_platform (sse_options ''http://localhost:3000/api?x=1'') =
     Inr (SSEClientTransport (localhost_api\<lparr>pathname := ''/sse'', search := [], hash := []\<rparr>)) \<and>
   createHTTPTransport example_platform (http_options ''http://localhost:3000/api?x=1'') =
     Inr (StreamableHTTPClientTransport
            (localhost_api\<lparr>pathname := ''/mcp'', search := [], hash := []\<rparr>)) \<and>
   createSSETransport example_platform (sse_options ''http://localhost:3000/v1/sse'') =
     Inr (SSEClientTransport localhost_sse) \<and>
   createSSETransport example_platform (sse_options ''file:///C:/foo/bar'') =
     Inr (SSEClientTransport (file_c_foo_bar\<lparr>pathname := ''/C:/sse''\<rparr>))"
proof -
  have a: "parseURL example_platform ''http://localhost:3000/api?x=1'' = Some localhost_api"
    and b: "parseURL example_platform ''http://localhost:3000/v1/sse'' = Some localhost_sse"
    and c: "parseURL example_platform ''file:///C:/foo/bar'' = Some file_c_foo_bar"
    by (simp_all add: example_platform_def)
  have o: "(sse_options u)\<lparr>url := Some u\<rparr> = sse_options u"
    "(http_options u)\<lparr>url := Some u\<rparr> = http_options u" for u
    by (simp_all add: sse_options_def http_options_def)
  have e: "\<not> endsWith (pathname localhost_api) ''/sse''"
    "\<not> endsWith (pathname localhost_api) ''/mcp''"
    "endsWith (pathname localhost_sse) ''/sse''"
    "\<not> endsWith (pathname file_c_foo_bar) ''/sse''"
    by (simp_all add: endsWith_def localhost_api_def localhost_sse_def file_c_foo_bar_def)
  have r: "URL_with_base ''/sse'' localhost_api =
      Inr (localhost_api\<lparr>pathname := ''/sse'', search := [], hash := []\<rparr>)"
    "URL_with_base ''/mcp'' localhost_api =
      Inr (localhost_api\<lparr>pathname := ''/mcp'', search := [], hash := []\<rparr>)"
    by (simp_all add: URL_with_base_def localhost_api_def)
  have f: "URL_with_base ''/sse'' file_c_foo_bar = Inr (file_c_foo_bar\<lparr>pathname := ''/C:/sse''\<rparr>)"
    by (simp add: URL_with_base_def file_c_foo_bar_def first_segment_def is_ascii_alpha_def)
  note s1 = url_normalisation [OF a, of "sse_options ''http://localhost:3000/api?x=1''",
      THEN conjunct1, unfolded o]
  note s2 = url_normalisation [OF a, of "http_options ''http://localhost:3000/api?x=1''",
      THEN conjunct2, THEN conjunct1, unfolded o]
  note s3 = url_normalisation [OF b, of "sse_options ''http://localhost:3000/v1/sse''",
      THEN conjunct1, unfolded o]
  note s4 = url_normalisation [OF c, of "sse_options ''file:///C:/foo/bar''",
      THEN conjunct1, unfolded o]
  from s1 e r have r1: "createSSETransport example_platform (sse_options ''http://localhost:3000/api?x=1'') =
     Inr (SSEClientTransport (localhost_api\<lparr>pathname := ''/sse'', search := [], hash := []\<rparr>))"
    by simp
  from s2 e r have r2: "createHTTPTransport example_platform (http_options ''http://localhost:3000/api?x=1'') =
     Inr (StreamableHTTPClientTransport
            (localhost_api\<lparr>pathname := ''/mcp'', search := [], hash := []\<rparr>))"
    by simp
  from s3 e have r3: "createSSETransport example_platform (sse_options ''http://localhost:3000/v1/sse'') =
     Inr (SSEClientTransport localhost_sse)"
    by simp
  from s4 e f have r4: "createSSETransport example_platform (sse_options ''file:///C:/foo/bar'') =
     Inr (SSEClientTransport (file_c_foo_bar\<lparr>pathname := ''/C:/sse''\<rparr>))"
    by simp
  from a r1 r2 r3 r4 show ?thesis by (intro conjI)
qed


























end
